theory Spec2Isabelle
  imports Main "HOL-Library.Word" "HOL-Library.Monad_Syntax"
begin

unbundle bit_operations_syntax

section \<open>MurmurHash3 (32 bit) as template metaprogram: the embedding of murmur.h\<close>

text \<open>
  The header computes the digest of a character pack during template instantiation.
  A template instantiation is a pure function of its arguments, so each (partial)
  specialisation of \<^verbatim>\<open>MurmurHash32Impl\<close> becomes one equation of a recursive function
  over the character pack, and each enumerator becomes one binding with the
  enumerator's name. The embedding has two layers.

  The value layer (\<open>final_Hash6\<close>, \<open>tail1_Hash1\<close>, \<open>tail2_Hash1\<close>, \<open>tail3_Hash1\<close>,
  \<open>block_Hash3\<close>, \<open>MurmurHash32Impl\<close>, \<open>MurmurHash32\<close>) reads every enumerator as a 32-bit
  value and every operator as the operator on unsigned 32-bit integers. That is the
  arithmetic which the header's comment prescribes ("all integer arithmetic is
  performed with unsigned 32 bit integers", overflow "modulo 2^32"): \<open>*\<close> and \<open>+\<close> wrap,
  \<^verbatim>\<open><<\<close> is \<open>push_bit\<close> and \<^verbatim>\<open>>>\<close> is \<open>drop_bit\<close>.

  The typed layer (\<open>cxx_final\<close>, \<open>cxx_tail1\<close>, \<open>cxx_tail2\<close>, \<open>cxx_tail3\<close>, \<open>cxx_block\<close>,
  \<open>cxx_MurmurHash32Impl\<close>, \<open>cxx_MurmurHash32\<close>) is the header as the language evaluates
  it. An enumerator whose value fits \<^verbatim>\<open>int\<close> is promoted to \<^verbatim>\<open>int\<close>, and the macros \<^verbatim>\<open>C2\<close>
  and \<^verbatim>\<open>M\<close> are \<^verbatim>\<open>int\<close> literals, so \<^verbatim>\<open>K << R1\<close>, \<^verbatim>\<open>K * C2\<close>, \<^verbatim>\<open>Hash1 << R2\<close> and
  \<^verbatim>\<open>Hash2 * M\<close> are operations on \<^verbatim>\<open>int\<close> whenever the enumerator is below \<open>2 ^ 31\<close>. An
  \<^verbatim>\<open>int\<close> operation that overflows is undefined, the initialiser is then no constant
  expression and the instantiation is ill-formed: it has no value, \<open>None\<close>. The final
  calculation has only unsigned products and shifts to the right of values that are
  not negative, so it always has a value (\<open>cxx_final_total\<close>); a tail or a block has
  one for some characters only.

  The typed layer is what the header computes. The value layer is what its comment
  intends; it is the header's value wherever the header has one
  (\<open>cxx_MurmurHash32_exact\<close>), and a statement about it says nothing about the header at
  an instantiation that is ill-formed.

  Characters. A template argument of type \<^verbatim>\<open>char\<close> is one byte, \<open>8 word\<close>. In an
  expression it is promoted to \<^verbatim>\<open>int\<close>; whether plain \<^verbatim>\<open>char\<close> is signed is a
  property of the implementation (signed on x86 and x86-64 with GCC, Clang and MSVC,
  unsigned on the ARM and PowerPC Linux ABIs), so the embedding takes it as the
  parameter \<open>char_signed\<close> of every function that reads a character: \<open>promote\<close> and
  \<open>c_char\<close> extend the byte by its sign where plain \<^verbatim>\<open>char\<close> is signed and by zeros where
  it is not.
\<close>

type_synonym uint32 = "32 word"
type_synonym cchar = "8 word"

definition promote :: "bool \<Rightarrow> cchar \<Rightarrow> uint32" where
  "promote char_signed c = (if char_signed then scast c else ucast c)"

subsection \<open>The magic constants (the macros of the header)\<close>

definition C1 :: uint32 where "C1 = 0xcc9e2d51"
definition C2 :: uint32 where "C2 = 0x1b873593"
definition R1 :: nat where "R1 = 15"
definition R2 :: nat where "R2 = 13"
definition M :: uint32 where "M = 5"
definition N :: uint32 where "N = 0xe6546b64"

subsection \<open>The value layer: the specialisations of \<^verbatim>\<open>MurmurHash32Impl\<close>, enumerator by enumerator\<close>

text \<open>Each definition gives the 32-bit value of the enumerator that the specialisation
  hands on. For the tails and the block this is the header's value only where
  \<open>cxx_tail1\<close>, \<open>cxx_tail2\<close>, \<open>cxx_tail3\<close> and \<open>cxx_block\<close> below have one.\<close>

text \<open>\<^verbatim>\<open>MurmurHash32Impl<Hash, Length>\<close>: the final hash calculations, enumerator
  \<^verbatim>\<open>Hash6\<close> (which is \<^verbatim>\<open>value\<close>).\<close>

definition final_Hash6 :: "uint32 \<Rightarrow> uint32 \<Rightarrow> uint32" where
  "final_Hash6 Hash Length =
     (let Hash1 = Hash XOR Length;
          Hash2 = Hash1 XOR (drop_bit 16 Hash1);
          Hash3 = Hash2 * 0x85ebca6b;
          Hash4 = Hash3 XOR (drop_bit 13 Hash3);
          Hash5 = Hash4 * 0xc2b2ae35;
          Hash6 = Hash5 XOR (drop_bit 16 Hash5)
      in Hash6)"

text \<open>\<^verbatim>\<open>MurmurHash32Impl<Hash, Length, A>\<close>: one remaining byte, enumerator \<^verbatim>\<open>Hash1\<close>.\<close>

definition tail1_Hash1 :: "bool \<Rightarrow> uint32 \<Rightarrow> cchar \<Rightarrow> uint32" where
  "tail1_Hash1 char_signed Hash A =
     (let K0 = 0x00000000 XOR promote char_signed A;
          K1 = K0 * C1;
          K2 = (push_bit R1 K1) OR (drop_bit (32 - R1) K1);
          K3 = K2 * C2;
          Hash1 = Hash XOR K3
      in Hash1)"

text \<open>\<^verbatim>\<open>MurmurHash32Impl<Hash, Length, A, B>\<close>: two remaining bytes.\<close>

definition tail2_Hash1 :: "bool \<Rightarrow> uint32 \<Rightarrow> cchar \<Rightarrow> cchar \<Rightarrow> uint32" where
  "tail2_Hash1 char_signed Hash A B =
     (let K0 = 0x00000000 XOR (push_bit 8 (promote char_signed B));
          K1 = K0 XOR promote char_signed A;
          K2 = K1 * C1;
          K3 = (push_bit R1 K2) OR (drop_bit (32 - R1) K2);
          K4 = K3 * C2;
          Hash1 = Hash XOR K4
      in Hash1)"

text \<open>\<^verbatim>\<open>MurmurHash32Impl<Hash, Length, A, B, C>\<close>: three remaining bytes.\<close>

definition tail3_Hash1 :: "bool \<Rightarrow> uint32 \<Rightarrow> cchar \<Rightarrow> cchar \<Rightarrow> cchar \<Rightarrow> uint32" where
  "tail3_Hash1 char_signed Hash A B C =
     (let K0 = 0 XOR (push_bit 16 (promote char_signed C));
          K1 = K0 XOR (push_bit 8 (promote char_signed B));
          K2 = K1 XOR promote char_signed A;
          K3 = K2 * C1;
          K4 = (push_bit R1 K3) OR (drop_bit (32 - R1) K3);
          K5 = K4 * C2;
          Hash1 = Hash XOR K5
      in Hash1)"

text \<open>\<^verbatim>\<open>MurmurHash32Impl<Hash, Length, A, B, C, D, Tail...>\<close>: a full block of four
  bytes; \<open>block_K0\<close> is the enumerator \<^verbatim>\<open>K0\<close>, \<open>block_Hash3\<close> the enumerator \<^verbatim>\<open>Hash3\<close>
  that is handed to the instantiation for the rest of the pack.\<close>

definition block_K0 :: "bool \<Rightarrow> cchar \<Rightarrow> cchar \<Rightarrow> cchar \<Rightarrow> cchar \<Rightarrow> uint32" where
  "block_K0 char_signed A B C D =
     (((push_bit 24 (promote char_signed D)) OR (push_bit 16 (promote char_signed C)))
       OR (push_bit 8 (promote char_signed B))) OR promote char_signed A"

definition block_Hash3 :: "bool \<Rightarrow> uint32 \<Rightarrow> cchar \<Rightarrow> cchar \<Rightarrow> cchar \<Rightarrow> cchar \<Rightarrow> uint32" where
  "block_Hash3 char_signed Hash A B C D =
     (let K0 = block_K0 char_signed A B C D;
          K1 = K0 * C1;
          K2 = (push_bit R1 K1) OR (drop_bit (32 - R1) K1);
          K3 = K2 * C2;
          Hash1 = Hash XOR K3;
          Hash2 = (push_bit R2 Hash1) OR (drop_bit (32 - R2) Hash1);
          Hash3 = Hash2 * M + N
      in Hash3)"

text \<open>The instantiation chain. The most specialised partial specialisation that matches
  the pack is chosen: the empty pack, a pack of one, two or three characters, and a pack
  of four or more. \<^verbatim>\<open>Length\<close> is a \<^verbatim>\<open>std::uint32_t\<close> template argument, so
  \<^verbatim>\<open>Length+4\<close> wraps. In the value layer every pack has a digest; the header has this
  digest where \<open>cxx_MurmurHash32Impl\<close> has one.\<close>

fun MurmurHash32Impl :: "bool \<Rightarrow> uint32 \<Rightarrow> uint32 \<Rightarrow> cchar list \<Rightarrow> uint32" where
  "MurmurHash32Impl char_signed Hash Length [] = final_Hash6 Hash Length"
| "MurmurHash32Impl char_signed Hash Length [A] =
     MurmurHash32Impl char_signed (tail1_Hash1 char_signed Hash A) (Length + 1) []"
| "MurmurHash32Impl char_signed Hash Length [A, B] =
     MurmurHash32Impl char_signed (tail2_Hash1 char_signed Hash A B) (Length + 2) []"
| "MurmurHash32Impl char_signed Hash Length [A, B, C] =
     MurmurHash32Impl char_signed (tail3_Hash1 char_signed Hash A B C) (Length + 3) []"
| "MurmurHash32Impl char_signed Hash Length (A # B # C # D # Tail) =
     MurmurHash32Impl char_signed (block_Hash3 char_signed Hash A B C D) (Length + 4) Tail"

text \<open>The public interface \<^verbatim>\<open>MurmurHash32<Seed, Chars...>\<close>.\<close>

definition MurmurHash32 :: "bool \<Rightarrow> uint32 \<Rightarrow> cchar list \<Rightarrow> uint32" where
  "MurmurHash32 char_signed Seed Chars = MurmurHash32Impl char_signed Seed 0 Chars"

text \<open>The enumerators \<^verbatim>\<open>Hash2\<close> to \<^verbatim>\<open>Hash6\<close> of the final calculation as a function of
  \<^verbatim>\<open>Hash1\<close>: the avalanche that follows the XOR with the length.\<close>

definition avalanche :: "uint32 \<Rightarrow> uint32" where
  "avalanche Hash1 =
     (let Hash2 = Hash1 XOR (drop_bit 16 Hash1);
          Hash3 = Hash2 * 0x85ebca6b;
          Hash4 = Hash3 XOR (drop_bit 13 Hash3);
          Hash5 = Hash4 * 0xc2b2ae35;
          Hash6 = Hash5 XOR (drop_bit 16 Hash5)
      in Hash6)"

text \<open>The avalanche undone step by step, from \<^verbatim>\<open>Hash6\<close> back to \<^verbatim>\<open>Hash1\<close>: the
  multipliers are \<open>0xc2b2ae35\<close> and \<open>0x85ebca6b\<close> inverted modulo \<open>2 ^ 32\<close>. It is not part
  of the header; it is the witness that the avalanche loses nothing.\<close>

definition avalanche_inverse :: "uint32 \<Rightarrow> uint32" where
  "avalanche_inverse Hash6 =
     (let Hash5 = Hash6 XOR (drop_bit 16 Hash6);
          Hash4 = Hash5 * 0x7ed1b41d;
          Hash3 = Hash4 XOR (drop_bit 13 Hash4) XOR (drop_bit 26 Hash4);
          Hash2 = Hash3 * 0xa5cb9243;
          Hash1 = Hash2 XOR (drop_bit 16 Hash2)
      in Hash1)"

subsection \<open>One step of the instantiation chain\<close>

text \<open>The template arguments \<^verbatim>\<open><Hash, Length, Chars...>\<close> of one instantiation of
  \<^verbatim>\<open>MurmurHash32Impl\<close>, and the instantiation whose \<^verbatim>\<open>value\<close> its own \<^verbatim>\<open>value\<close> is
  defined as: one rule per partial specialisation that names another instantiation.
  The specialisation for the empty pack names none. The \<^verbatim>\<open>Hash\<close> argument of the
  instantiation that is named is the one of the value layer, so the relation holds
  the chain of every pack; the chain that the header has is the part of it whose steps
  have a value in the typed layer, \<open>cxx_refers_to\<close> below.\<close>

type_synonym impl_args = "uint32 \<times> uint32 \<times> cchar list"

inductive refers_to :: "bool \<Rightarrow> impl_args \<Rightarrow> impl_args \<Rightarrow> bool"
  for char_signed :: bool where
  tail1: "refers_to char_signed (Hash, Length, [A])
            (tail1_Hash1 char_signed Hash A, Length + 1, [])"
| tail2: "refers_to char_signed (Hash, Length, [A, B])
            (tail2_Hash1 char_signed Hash A B, Length + 2, [])"
| tail3: "refers_to char_signed (Hash, Length, [A, B, C])
            (tail3_Hash1 char_signed Hash A B C, Length + 3, [])"
| block: "refers_to char_signed (Hash, Length, A # B # C # D # Tail)
            (block_Hash3 char_signed Hash A B C D, Length + 4, Tail)"

code_pred refers_to .

text \<open>The number of instantiations of \<^verbatim>\<open>MurmurHash32Impl\<close> between the one the public
  interface names and the one for the empty pack.\<close>

definition chain_length :: "cchar list \<Rightarrow> nat" where
  "chain_length Chars = (length Chars + 3) div 4"

subsection \<open>The typed layer: values and operators of C++\<close>

text \<open>A prvalue of the header is an \<^verbatim>\<open>int\<close> with its value or an \<^verbatim>\<open>unsigned int\<close>
  (\<^verbatim>\<open>std::uint32_t\<close>; \<^verbatim>\<open>int\<close> has 32 bits).\<close>

datatype cval = SInt int | UInt uint32

definition int_range :: "int \<Rightarrow> bool" where
  "int_range v = (- (2 ^ 31) \<le> v \<and> v < 2 ^ 31)"

text \<open>Conversion to \<^verbatim>\<open>unsigned int\<close>, as the usual arithmetic conversions and the
  conversion of a template argument to \<^verbatim>\<open>std::uint32_t\<close> do it: modulo \<open>2 ^ 32\<close>.\<close>

fun to_uint32 :: "cval \<Rightarrow> uint32" where
  "to_uint32 (SInt v) = word_of_int v"
| "to_uint32 (UInt w) = w"

text \<open>What a later initialiser reads when it names an enumerator that was initialised
  with the given value. Each enumeration of the header has one enumerator and no fixed
  underlying type, so it is promoted to \<^verbatim>\<open>int\<close> if its value fits \<^verbatim>\<open>int\<close> and to
  \<^verbatim>\<open>unsigned int\<close> otherwise.\<close>

fun enumerator :: "cval \<Rightarrow> cval" where
  "enumerator (SInt v) = SInt v"
| "enumerator (UInt w) = (if uint w < 2 ^ 31 then SInt (uint w) else UInt w)"

text \<open>\<^verbatim>\<open>*\<close> and \<^verbatim>\<open>+\<close>: on two \<^verbatim>\<open>int\<close> operands the exact result if it fits \<^verbatim>\<open>int\<close> and no
  value otherwise; with an \<^verbatim>\<open>unsigned int\<close> operand both are converted and the result
  wraps.\<close>

fun c_mul :: "cval \<Rightarrow> cval \<Rightarrow> cval option" where
  "c_mul (SInt a) (SInt b) = (if int_range (a * b) then Some (SInt (a * b)) else None)"
| "c_mul x y = Some (UInt (to_uint32 x * to_uint32 y))"

fun c_add :: "cval \<Rightarrow> cval \<Rightarrow> cval option" where
  "c_add (SInt a) (SInt b) = (if int_range (a + b) then Some (SInt (a + b)) else None)"
| "c_add x y = Some (UInt (to_uint32 x + to_uint32 y))"

text \<open>\<^verbatim>\<open>^\<close> and \<^verbatim>\<open>|\<close>: bitwise on two's complement; they cannot overflow.\<close>

fun c_xor :: "cval \<Rightarrow> cval \<Rightarrow> cval" where
  "c_xor (SInt a) (SInt b) = SInt (a XOR b)"
| "c_xor x y = UInt (to_uint32 x XOR to_uint32 y)"

fun c_or :: "cval \<Rightarrow> cval \<Rightarrow> cval" where
  "c_or (SInt a) (SInt b) = SInt (a OR b)"
| "c_or x y = UInt (to_uint32 x OR to_uint32 y)"

text \<open>\<^verbatim>\<open><<\<close> on an \<^verbatim>\<open>int\<close> (C++11 to C++17, with core issue 1457): undefined if the left
  operand is negative or the exact result does not fit \<^verbatim>\<open>unsigned int\<close>, otherwise the
  exact result converted to \<^verbatim>\<open>int\<close>. On an \<^verbatim>\<open>unsigned int\<close> it wraps. The right operands
  of the header are below 32.\<close>

fun c_shl :: "cval \<Rightarrow> nat \<Rightarrow> cval option" where
  "c_shl (SInt a) n =
     (if a < 0 \<or> 2 ^ 32 \<le> a * 2 ^ n then None
      else Some (SInt (sint (word_of_int (a * 2 ^ n) :: uint32))))"
| "c_shl (UInt w) n = Some (UInt (push_bit n w))"

text \<open>\<^verbatim>\<open>>>\<close>: division by a power of two, rounded down. The header shifts to the right
  only enumerators that were initialised with an \<^verbatim>\<open>unsigned int\<close>, so never a negative
  value.\<close>

fun c_shr :: "cval \<Rightarrow> nat \<Rightarrow> cval" where
  "c_shr (SInt a) n = SInt (a div 2 ^ n)"
| "c_shr (UInt w) n = UInt (drop_bit n w)"

text \<open>A character in an expression: promoted to \<^verbatim>\<open>int\<close>.\<close>

definition c_char :: "bool \<Rightarrow> cchar \<Rightarrow> cval" where
  "c_char char_signed c = SInt (if char_signed then sint c else uint c)"

text \<open>The macros as literals: a hexadecimal literal has the type \<^verbatim>\<open>int\<close> if its value
  fits and \<^verbatim>\<open>unsigned int\<close> otherwise.\<close>

definition C1_lit :: cval where "C1_lit = UInt 0xcc9e2d51"
definition C2_lit :: cval where "C2_lit = SInt 0x1b873593"
definition M_lit :: cval where "M_lit = SInt 5"
definition N_lit :: cval where "N_lit = UInt 0xe6546b64"

text \<open>Two properties of a value that the proofs follow through the initialisers.\<close>

fun is_unsigned :: "cval \<Rightarrow> bool" where
  "is_unsigned (UInt w) = True"
| "is_unsigned (SInt a) = False"

fun nonneg :: "cval \<Rightarrow> bool" where
  "nonneg (UInt w) = True"
| "nonneg (SInt a) = (0 \<le> a \<and> a < 2 ^ 32)"

subsection \<open>The typed layer: the specialisations of \<^verbatim>\<open>MurmurHash32Impl\<close>\<close>

text \<open>One line per enumerator, in the order of the header; a name bound by \<open>let\<close> or by
  \<open>\<leftarrow>\<close> is the value of the enumerator's initialiser, and \<open>enumerator\<close> is its use in a
  later initialiser. The result is the enumerator that the specialisation hands on,
  converted to \<^verbatim>\<open>std::uint32_t\<close>, or \<open>None\<close> if an initialiser is undefined.

  \<^verbatim>\<open>MurmurHash32Impl<Hash, Length>\<close>, murmur.h lines 112 to 128.\<close>

definition cxx_final :: "uint32 \<Rightarrow> uint32 \<Rightarrow> uint32 option" where
  "cxx_final Hash Length = do {
     let Hash1 = c_xor (UInt Hash) (UInt Length);
     let Hash2 = c_xor (enumerator Hash1) (c_shr (enumerator Hash1) 16);
     Hash3 \<leftarrow> c_mul (enumerator Hash2) (UInt 0x85ebca6b);
     let Hash4 = c_xor (enumerator Hash3) (c_shr (enumerator Hash3) 13);
     Hash5 \<leftarrow> c_mul (enumerator Hash4) (UInt 0xc2b2ae35);
     let Hash6 = c_xor (enumerator Hash5) (c_shr (enumerator Hash5) 16);
     Some (to_uint32 Hash6)
   }"

text \<open>\<^verbatim>\<open>MurmurHash32Impl<Hash, Length, A>\<close>, lines 131 to 145.\<close>

definition cxx_tail1 :: "bool \<Rightarrow> uint32 \<Rightarrow> cchar \<Rightarrow> uint32 option" where
  "cxx_tail1 char_signed Hash A = do {
     let K0 = c_xor (SInt 0x00000000) (c_char char_signed A);
     K1 \<leftarrow> c_mul (enumerator K0) C1_lit;
     l \<leftarrow> c_shl (enumerator K1) R1;
     let K2 = c_or l (c_shr (enumerator K1) (32 - R1));
     K3 \<leftarrow> c_mul (enumerator K2) C2_lit;
     let Hash1 = c_xor (UInt Hash) (enumerator K3);
     Some (to_uint32 Hash1)
   }"

text \<open>\<^verbatim>\<open>MurmurHash32Impl<Hash, Length, A, B>\<close>, lines 148 to 162.\<close>

definition cxx_tail2 :: "bool \<Rightarrow> uint32 \<Rightarrow> cchar \<Rightarrow> cchar \<Rightarrow> uint32 option" where
  "cxx_tail2 char_signed Hash A B = do {
     b \<leftarrow> c_shl (c_char char_signed B) 8;
     let K0 = c_xor (SInt 0x00000000) b;
     let K1 = c_xor (enumerator K0) (c_char char_signed A);
     K2 \<leftarrow> c_mul (enumerator K1) C1_lit;
     l \<leftarrow> c_shl (enumerator K2) R1;
     let K3 = c_or l (c_shr (enumerator K2) (32 - R1));
     K4 \<leftarrow> c_mul (enumerator K3) C2_lit;
     let Hash1 = c_xor (UInt Hash) (enumerator K4);
     Some (to_uint32 Hash1)
   }"

text \<open>\<^verbatim>\<open>MurmurHash32Impl<Hash, Length, A, B, C>\<close>, lines 165 to 180.\<close>

definition cxx_tail3 :: "bool \<Rightarrow> uint32 \<Rightarrow> cchar \<Rightarrow> cchar \<Rightarrow> cchar \<Rightarrow> uint32 option" where
  "cxx_tail3 char_signed Hash A B C = do {
     c \<leftarrow> c_shl (c_char char_signed C) 16;
     let K0 = c_xor (SInt 0) c;
     b \<leftarrow> c_shl (c_char char_signed B) 8;
     let K1 = c_xor (enumerator K0) b;
     let K2 = c_xor (enumerator K1) (c_char char_signed A);
     K3 \<leftarrow> c_mul (enumerator K2) C1_lit;
     l \<leftarrow> c_shl (enumerator K3) R1;
     let K4 = c_or l (c_shr (enumerator K3) (32 - R1));
     K5 \<leftarrow> c_mul (enumerator K4) C2_lit;
     let Hash1 = c_xor (UInt Hash) (enumerator K5);
     Some (to_uint32 Hash1)
   }"

text \<open>\<^verbatim>\<open>MurmurHash32Impl<Hash, Length, A, B, C, D, Tail...>\<close>, lines 183 to 201.\<close>

definition cxx_block :: "bool \<Rightarrow> uint32 \<Rightarrow> cchar \<Rightarrow> cchar \<Rightarrow> cchar \<Rightarrow> cchar \<Rightarrow> uint32 option" where
  "cxx_block char_signed Hash A B C D = do {
     d \<leftarrow> c_shl (c_char char_signed D) 24;
     c \<leftarrow> c_shl (c_char char_signed C) 16;
     b \<leftarrow> c_shl (c_char char_signed B) 8;
     let K0 = c_or (c_or (c_or d c) b) (c_char char_signed A);
     K1 \<leftarrow> c_mul (enumerator K0) C1_lit;
     l \<leftarrow> c_shl (enumerator K1) R1;
     let K2 = c_or l (c_shr (enumerator K1) (32 - R1));
     K3 \<leftarrow> c_mul (enumerator K2) C2_lit;
     let Hash1 = c_xor (UInt Hash) (enumerator K3);
     m \<leftarrow> c_shl (enumerator Hash1) R2;
     let Hash2 = c_or m (c_shr (enumerator Hash1) (32 - R2));
     p \<leftarrow> c_mul (enumerator Hash2) M_lit;
     Hash3 \<leftarrow> c_add p N_lit;
     Some (to_uint32 Hash3)
   }"

text \<open>The instantiation chain: an instantiation has a value if its own enumerators have
  one and the instantiation it names has one.\<close>

fun cxx_MurmurHash32Impl :: "bool \<Rightarrow> uint32 \<Rightarrow> uint32 \<Rightarrow> cchar list \<Rightarrow> uint32 option" where
  "cxx_MurmurHash32Impl char_signed Hash Length [] = cxx_final Hash Length"
| "cxx_MurmurHash32Impl char_signed Hash Length [A] =
     (case cxx_tail1 char_signed Hash A of None \<Rightarrow> None
      | Some Hash1 \<Rightarrow> cxx_MurmurHash32Impl char_signed Hash1 (Length + 1) [])"
| "cxx_MurmurHash32Impl char_signed Hash Length [A, B] =
     (case cxx_tail2 char_signed Hash A B of None \<Rightarrow> None
      | Some Hash1 \<Rightarrow> cxx_MurmurHash32Impl char_signed Hash1 (Length + 2) [])"
| "cxx_MurmurHash32Impl char_signed Hash Length [A, B, C] =
     (case cxx_tail3 char_signed Hash A B C of None \<Rightarrow> None
      | Some Hash1 \<Rightarrow> cxx_MurmurHash32Impl char_signed Hash1 (Length + 3) [])"
| "cxx_MurmurHash32Impl char_signed Hash Length (A # B # C # D # Tail) =
     (case cxx_block char_signed Hash A B C D of None \<Rightarrow> None
      | Some Hash3 \<Rightarrow> cxx_MurmurHash32Impl char_signed Hash3 (Length + 4) Tail)"

text \<open>The public interface \<^verbatim>\<open>MurmurHash32<Seed, Chars...>\<close>.\<close>

definition cxx_MurmurHash32 :: "bool \<Rightarrow> uint32 \<Rightarrow> cchar list \<Rightarrow> uint32 option" where
  "cxx_MurmurHash32 char_signed Seed Chars = cxx_MurmurHash32Impl char_signed Seed 0 Chars"

text \<open>One step of the instantiation chain of the header: an instantiation names another
  one only if its own enumerators have a value. Where an initialiser is undefined the
  instantiation is ill-formed and the chain stops there.\<close>

inductive cxx_refers_to :: "bool \<Rightarrow> impl_args \<Rightarrow> impl_args \<Rightarrow> bool"
  for char_signed :: bool where
  tail1: "cxx_tail1 char_signed Hash A = Some Hash1 \<Longrightarrow>
            cxx_refers_to char_signed (Hash, Length, [A]) (Hash1, Length + 1, [])"
| tail2: "cxx_tail2 char_signed Hash A B = Some Hash1 \<Longrightarrow>
            cxx_refers_to char_signed (Hash, Length, [A, B]) (Hash1, Length + 2, [])"
| tail3: "cxx_tail3 char_signed Hash A B C = Some Hash1 \<Longrightarrow>
            cxx_refers_to char_signed (Hash, Length, [A, B, C]) (Hash1, Length + 3, [])"
| block: "cxx_block char_signed Hash A B C D = Some Hash3 \<Longrightarrow>
            cxx_refers_to char_signed (Hash, Length, A # B # C # D # Tail)
              (Hash3, Length + 4, Tail)"

code_pred cxx_refers_to .

section \<open>The algorithm in the words of the specification\<close>

text \<open>The specification describes a hasher of byte sequences. Its stages are written
  down here independently of the header, to be compared with the embedding: bytes are
  unsigned, a rotation is the rotation of the word library, and the finalizer is
  given on natural numbers with the wrap-around and the shifts written as \<open>mod\<close> and
  \<open>div\<close>.\<close>

definition spec_mix_k :: "uint32 \<Rightarrow> uint32" where
  "spec_mix_k k = word_rotl 15 (k * 0xcc9e2d51) * 0x1b873593"

definition spec_chunk_word :: "cchar \<Rightarrow> cchar \<Rightarrow> cchar \<Rightarrow> cchar \<Rightarrow> uint32" where
  "spec_chunk_word b0 b1 b2 b3 =
     ucast b0 OR push_bit 8 (ucast b1) OR push_bit 16 (ucast b2) OR push_bit 24 (ucast b3)"

definition spec_block :: "uint32 \<Rightarrow> cchar \<Rightarrow> cchar \<Rightarrow> cchar \<Rightarrow> cchar \<Rightarrow> uint32" where
  "spec_block hash b0 b1 b2 b3 =
     word_rotl 13 (hash XOR spec_mix_k (spec_chunk_word b0 b1 b2 b3)) * 5 + 0xe6546b64"

fun spec_tail_word :: "cchar list \<Rightarrow> uint32" where
  "spec_tail_word [] = 0"
| "spec_tail_word (b # bs) = ucast b OR push_bit 8 (spec_tail_word bs)"

definition spec_tail :: "uint32 \<Rightarrow> cchar list \<Rightarrow> uint32" where
  "spec_tail hash bs = (if bs = [] then hash else hash XOR spec_mix_k (spec_tail_word bs))"

fun spec_accumulate :: "uint32 \<Rightarrow> cchar list \<Rightarrow> uint32" where
  "spec_accumulate hash (b0 # b1 # b2 # b3 # bs) =
     spec_accumulate (spec_block hash b0 b1 b2 b3) bs"
| "spec_accumulate hash bs = spec_tail hash bs"

definition spec_finalize :: "nat \<Rightarrow> nat \<Rightarrow> nat" where
  "spec_finalize hash len =
     (let h1 = hash XOR len;
          h2 = h1 XOR (h1 div 2 ^ 16);
          h3 = (h2 * 0x85ebca6b) mod 2 ^ 32;
          h4 = h3 XOR (h3 div 2 ^ 13);
          h5 = (h4 * 0xc2b2ae35) mod 2 ^ 32;
          h6 = h5 XOR (h5 div 2 ^ 16)
      in h6)"

definition spec_hash32 :: "cchar list \<Rightarrow> uint32 \<Rightarrow> nat" where
  "spec_hash32 bytes seed =
     spec_finalize (unat (spec_accumulate seed bytes)) (length bytes mod 2 ^ 32)"

section \<open>Rotations\<close>

text \<open>The header writes a rotation to the left as two shifts joined by \<^verbatim>\<open>|\<close>. For
  every amount strictly between 0 and 32 that is the rotation of the word library.\<close>

lemma rotl_shift_or:
  fixes x :: uint32
  assumes "0 < r" and "r < 32"
  shows "push_bit r x OR drop_bit (32 - r) x = word_rotl r x"
proof (rule bit_word_eqI)
  fix n :: nat
  assume "n < LENGTH(32)"
  then have n: "n < 32" by simp
  have hi: "\<not> bit x k" if "32 \<le> k" for k
    using bit_imp_le_length [of x k] that by auto
  have r: "r mod 32 = r" using assms by simp
  have L: "bit (push_bit r x OR drop_bit (32 - r) x) n
      = ((r \<le> n \<and> bit x (n - r)) \<or> bit x (32 - r + n))"
    using n by (simp only: bit_or_iff bit_push_bit_iff bit_drop_bit_eq possible_bit_word) simp
  have R: "bit (word_rotl r x) n = bit x ((n + (32 - r)) mod 32)"
    using n r by (simp only: bit_word_rotl_iff) simp
  show "bit (push_bit r x OR drop_bit (32 - r) x) n = bit (word_rotl r x) n"
  proof (cases "n < r")
    case True
    then have "(n + (32 - r)) mod 32 = 32 - r + n" using assms by simp
    with True show ?thesis unfolding L R by simp
  next
    case False
    then have "n + (32 - r) = 32 + (n - r)" using assms by simp
    moreover have "n - r < 32" using n by simp
    ultimately have m: "(n + (32 - r)) mod 32 = n - r" by simp
    have "\<not> bit x (32 - r + n)" using False assms by (intro hi) simp
    with m False show ?thesis unfolding L R by simp
  qed
qed

lemma rotl_R1: "push_bit R1 x OR drop_bit (32 - R1) x = word_rotl 15 (x :: uint32)"
  unfolding R1_def by (rule rotl_shift_or) simp_all

lemma rotl_R2: "push_bit R2 x OR drop_bit (32 - R2) x = word_rotl 13 (x :: uint32)"
  unfolding R2_def by (rule rotl_shift_or) simp_all

section \<open>The final calculation\<close>

lemma final_Hash6_avalanche: "final_Hash6 Hash Length = avalanche (Hash XOR Length)"
  by (simp add: final_Hash6_def avalanche_def Let_def)

lemma unat_xor: "unat (a XOR b) = unat a XOR unat (b :: uint32)"
  by (simp add: unsigned_xor_eq)

lemma unat_shift_right: "unat (drop_bit k a) = unat (a :: uint32) div 2 ^ k"
  unfolding unat_drop_bit_eq by (rule drop_bit_eq_div)

lemma unat_mult_85ebca6b: "unat (a * 0x85ebca6b :: uint32) = (unat a * 0x85ebca6b) mod 2 ^ 32"
  by (simp add: unat_word_ariths)

lemma unat_mult_c2b2ae35: "unat (a * 0xc2b2ae35 :: uint32) = (unat a * 0xc2b2ae35) mod 2 ^ 32"
  by (simp add: unat_word_ariths)

lemma unat_final_Hash6: "unat (final_Hash6 h n) = spec_finalize (unat h) (unat n)"
  by (simp only: final_Hash6_def spec_finalize_def Let_def unat_xor unat_shift_right
      unat_mult_85ebca6b unat_mult_c2b2ae35)

lemma hi_bit: "32 \<le> k \<Longrightarrow> \<not> bit (x :: uint32) k"
  using bit_imp_le_length [of x k] by auto

lemma xorshift16_involution:
  "(x XOR drop_bit 16 x) XOR drop_bit 16 (x XOR drop_bit 16 x) = (x :: uint32)"
  by (rule bit_word_eqI) (auto simp add: bit_simps hi_bit)

lemma xorshift13_left:
  "(x XOR drop_bit 13 x) XOR drop_bit 13 (x XOR drop_bit 13 x) XOR drop_bit 26 (x XOR drop_bit 13 x) = (x :: uint32)"
  by (rule bit_word_eqI) (auto simp add: bit_simps hi_bit)

lemma xorshift13_right:
  "(y XOR drop_bit 13 y XOR drop_bit 26 y) XOR drop_bit 13 (y XOR drop_bit 13 y XOR drop_bit 26 y) = (y :: uint32)"
  by (rule bit_word_eqI) (auto simp add: bit_simps hi_bit)

lemma unit_85ebca6b: "(0x85ebca6b :: uint32) * 0xa5cb9243 = 1" "(0xa5cb9243 :: uint32) * 0x85ebca6b = 1"
  by simp_all

lemma unit_c2b2ae35: "(0xc2b2ae35 :: uint32) * 0x7ed1b41d = 1" "(0x7ed1b41d :: uint32) * 0xc2b2ae35 = 1"
  by simp_all

lemma mult_85ebca6b: "x * 0x85ebca6b * 0xa5cb9243 = (x :: uint32)" "x * 0xa5cb9243 * 0x85ebca6b = (x :: uint32)"
  by (simp_all only: mult.assoc unit_85ebca6b mult_1_right)

lemma mult_c2b2ae35: "x * 0xc2b2ae35 * 0x7ed1b41d = (x :: uint32)" "x * 0x7ed1b41d * 0xc2b2ae35 = (x :: uint32)"
  by (simp_all only: mult.assoc unit_c2b2ae35 mult_1_right)

lemma avalanche_inverse_left: "avalanche_inverse (avalanche h) = h"
  unfolding avalanche_def avalanche_inverse_def Let_def
  by (simp only: xorshift16_involution mult_c2b2ae35 xorshift13_left mult_85ebca6b)

lemma avalanche_inverse_right: "avalanche (avalanche_inverse h) = h"
  unfolding avalanche_def avalanche_inverse_def Let_def
  by (simp only: xorshift16_involution mult_c2b2ae35 xorshift13_right mult_85ebca6b)

lemma bij_avalanche: "bij avalanche"
  by (rule bij_betw_byWitness [where f' = avalanche_inverse])
    (simp_all add: avalanche_inverse_left avalanche_inverse_right)

section \<open>The instantiation chain\<close>

lemma refers_to_consumes:
  "refers_to cs (h, n, p) (h', n', p') \<Longrightarrow> length p' < length p"
  by (auto elim!: refers_to.cases)

lemma no_refers_to_empty: "\<not> refers_to cs (h, n, []) y"
  by (auto elim: refers_to.cases)

lemma chain_length_simps:
  "chain_length [] = 0" "chain_length [A] = 1" "chain_length [A, B] = 1"
  "chain_length [A, B, C] = 1"
  "chain_length (A # B # C # D # Tail) = Suc (chain_length Tail)"
  by (simp_all add: chain_length_def)

lemma chain_reaches_final:
  "\<exists>h'. (refers_to cs ^^ chain_length p) (h, n, p) (h', n + of_nat (length p), [])
      \<and> MurmurHash32Impl cs h n p = final_Hash6 h' (n + of_nat (length p))"
proof (induction cs h n p rule: MurmurHash32Impl.induct)
  case (1 cs h n)
  then show ?case by (simp add: chain_length_simps)
next
  case (2 cs h n A)
  have "refers_to cs (h, n, [A]) (tail1_Hash1 cs h A, n + 1, [])" by (rule refers_to.tail1)
  then show ?case by (auto simp add: chain_length_simps)
next
  case (3 cs h n A B)
  have "refers_to cs (h, n, [A, B]) (tail2_Hash1 cs h A B, n + 2, [])" by (rule refers_to.tail2)
  then show ?case by (auto simp add: chain_length_simps)
next
  case (4 cs h n A B C)
  have "refers_to cs (h, n, [A, B, C]) (tail3_Hash1 cs h A B C, n + 3, [])" by (rule refers_to.tail3)
  then show ?case by (auto simp add: chain_length_simps)
next
  case (5 cs h n A B C D Tail)
  let ?h = "block_Hash3 cs h A B C D"
  from 5 obtain h' where
    ch: "(refers_to cs ^^ chain_length Tail) (?h, n + 4, Tail) (h', n + 4 + of_nat (length Tail), [])"
    and v: "MurmurHash32Impl cs ?h (n + 4) Tail = final_Hash6 h' (n + 4 + of_nat (length Tail))"
    by blast
  have st: "refers_to cs (h, n, A # B # C # D # Tail) (?h, n + 4, Tail)" by (rule refers_to.block)
  have eq: "n + 4 + of_nat (length Tail) = n + of_nat (length (A # B # C # D # Tail))"
    by simp
  from st ch have "(refers_to cs ^^ Suc (chain_length Tail)) (h, n, A # B # C # D # Tail)
      (h', n + 4 + of_nat (length Tail), [])"
    by (rule relpowp_Suc_I2)
  with v show ?case
    unfolding eq chain_length_simps by auto
qed

text \<open>A step shortens the pack, by four characters or to the empty pack.\<close>

lemma refers_to_step_size:
  "refers_to cs (h1, n1, p1) (h2, n2, p2) \<Longrightarrow>
     length p2 < length p1 \<and> (p2 = [] \<and> length p1 \<le> 3 \<or> length p1 = length p2 + 4)"
  by (auto elim!: refers_to.cases)

section \<open>Promotion of characters, and the value layer against the specification's words\<close>

lemma high_bit_clear:
  assumes "c < 0x80"
  shows "\<not> bit (c :: cchar) 7"
proof -
  have "unat c < 2 ^ 7" using assms by (simp add: word_less_nat_alt)
  then have "take_bit 7 (unat c) = unat c" by (simp only: take_bit_nat_eq_self)
  then have "bit (unat c) 7 = bit (take_bit 7 (unat c)) 7" by simp
  also have "\<dots> = False" by (simp add: bit_take_bit_iff)
  finally show ?thesis by (simp add: bit_unsigned_iff)
qed

lemma scast_7bit: "c < 0x80 \<Longrightarrow> (scast (c :: cchar) :: uint32) = ucast c"
  by (rule bit_word_eqI) (auto simp add: bit_word_scast_iff bit_word_ucast_iff high_bit_clear dest: bit_imp_le_length)

lemma promote_zero_extends: "\<not> char_signed \<or> c < 0x80 \<Longrightarrow> promote char_signed c = ucast c"
  by (auto simp add: promote_def scast_7bit)

text \<open>A negative character: the promotion sets every bit from the eighth on, and in a
  block nothing is left of the other three characters.\<close>

lemma high_bit_set:
  assumes "0x80 \<le> c"
  shows "bit (c :: cchar) 7"
proof (rule ccontr)
  assume n: "\<not> bit c 7"
  have "take_bit 8 (unat c) = unat c"
    using unsigned_less [of c, where ?'a = nat] by (simp add: take_bit_nat_eq_self)
  moreover have "take_bit (Suc 7) (unat c) = 2 ^ 7 * of_bool (bit (unat c) 7) + take_bit 7 (unat c)"
    by (rule take_bit_Suc_from_most)
  moreover have "\<not> bit (unat c) 7" using n by (simp add: bit_unsigned_iff)
  ultimately have "unat c = take_bit 7 (unat c)" by simp
  moreover have "take_bit 7 (unat c) < 2 ^ 7" by (rule take_bit_nat_less_exp)
  ultimately have "unat c < 128" by simp
  moreover have "128 \<le> unat c" using assms by (simp add: word_le_nat_alt)
  ultimately show False by simp
qed

lemma scast_negative_bits:
  "0x80 \<le> c \<Longrightarrow> 8 \<le> n \<Longrightarrow> n < 32 \<Longrightarrow> bit (scast (c :: cchar) :: uint32) n"
  by (simp add: bit_word_scast_iff high_bit_set)

lemma block_K0_negative:
  assumes "0x80 \<le> A"
  shows "block_K0 True A B C D = scast A"
proof (rule bit_word_eqI)
  fix n :: nat
  assume "n < LENGTH(32)"
  then have n: "n < 32" by simp
  show "bit (block_K0 True A B C D) n = bit (scast A :: uint32) n"
  proof (cases "n < 8")
    case True
    then show ?thesis
      unfolding block_K0_def promote_def
      by (simp add: bit_or_iff bit_push_bit_iff)
  next
    case False
    then have "bit (scast A :: uint32) n"
      using assms n by (simp add: scast_negative_bits)
    then show ?thesis
      unfolding block_K0_def promote_def
      by (simp add: bit_or_iff)
  qed
qed

text \<open>What each specialisation computes from the promoted characters, whether plain
  \<^verbatim>\<open>char\<close> is signed or not.\<close>

lemma tail1_Hash1_mix: "tail1_Hash1 cs h A = h XOR spec_mix_k (promote cs A)"
  by (simp add: tail1_Hash1_def spec_mix_k_def rotl_R1 C1_def C2_def)

lemma tail2_Hash1_mix:
  "tail2_Hash1 cs h A B = h XOR spec_mix_k (push_bit 8 (promote cs B) XOR promote cs A)"
  by (simp add: tail2_Hash1_def spec_mix_k_def rotl_R1 C1_def C2_def)

lemma tail3_Hash1_mix:
  "tail3_Hash1 cs h A B C =
     h XOR spec_mix_k ((push_bit 16 (promote cs C) XOR push_bit 8 (promote cs B)) XOR promote cs A)"
  by (simp add: tail3_Hash1_def spec_mix_k_def rotl_R1 C1_def C2_def)

lemma block_Hash3_mix:
  "block_Hash3 cs h A B C D =
     word_rotl 13 (h XOR spec_mix_k (block_K0 cs A B C D)) * 5 + 0xe6546b64"
  by (simp add: block_Hash3_def spec_mix_k_def rotl_R1 rotl_R2 C1_def C2_def M_def N_def)

text \<open>Zero-extended bytes occupy disjoint bit ranges, so joining them by XOR is
  joining them by OR.\<close>

lemma ucast_low: "8 \<le> n \<Longrightarrow> \<not> bit (ucast (c :: cchar) :: uint32) n"
  by (auto simp add: bit_word_ucast_iff dest: bit_imp_le_length)

lemma tail_word2: "push_bit 8 (ucast B) XOR ucast A = (ucast A OR push_bit 8 (ucast (B :: cchar)) :: uint32)"
  for A :: cchar
  by (rule bit_word_eqI) (auto simp add: bit_simps ucast_low dest: bit_imp_le_length)

lemma tail_word3:
  "(push_bit 16 (ucast C) XOR push_bit 8 (ucast B)) XOR ucast A
     = (ucast A OR push_bit 8 (ucast B OR push_bit 8 (ucast C)) :: uint32)"
  for A B C :: cchar
  by (rule bit_word_eqI) (auto simp add: bit_simps ucast_low dest: bit_imp_le_length)

lemma block_word4:
  "((push_bit 24 (ucast D) OR push_bit 16 (ucast C)) OR push_bit 8 (ucast B)) OR ucast A
     = (ucast A OR push_bit 8 (ucast B) OR push_bit 16 (ucast C) OR push_bit 24 (ucast D) :: uint32)"
  for A B C D :: cchar
  by (simp add: ac_simps)

lemma tail1_Hash1_spec:
  "\<not> cs \<or> A < 0x80 \<Longrightarrow> tail1_Hash1 cs h A = spec_tail h [A]"
  by (simp add: tail1_Hash1_mix spec_tail_def promote_zero_extends)

lemma tail2_Hash1_spec:
  "\<not> cs \<or> (A < 0x80 \<and> B < 0x80) \<Longrightarrow> tail2_Hash1 cs h A B = spec_tail h [A, B]"
  by (auto simp add: tail2_Hash1_mix spec_tail_def promote_zero_extends tail_word2)

lemma tail3_Hash1_spec:
  "\<not> cs \<or> (A < 0x80 \<and> B < 0x80 \<and> C < 0x80) \<Longrightarrow>
     tail3_Hash1 cs h A B C = spec_tail h [A, B, C]"
  by (auto simp add: tail3_Hash1_mix spec_tail_def promote_zero_extends tail_word3)

lemma block_K0_spec:
  "\<not> cs \<or> (A < 0x80 \<and> B < 0x80 \<and> C < 0x80 \<and> D < 0x80) \<Longrightarrow>
     block_K0 cs A B C D = spec_chunk_word A B C D"
  unfolding block_K0_def spec_chunk_word_def
  by (auto simp add: promote_zero_extends block_word4)

lemma block_Hash3_spec:
  "\<not> cs \<or> (A < 0x80 \<and> B < 0x80 \<and> C < 0x80 \<and> D < 0x80) \<Longrightarrow>
     block_Hash3 cs h A B C D = spec_block h A B C D"
  by (simp only: block_Hash3_mix spec_block_def block_K0_spec)

lemma MurmurHash32Impl_spec:
  "\<not> cs \<or> (\<forall>c \<in> set p. c < 0x80) \<Longrightarrow>
     MurmurHash32Impl cs h n p = final_Hash6 (spec_accumulate h p) (n + of_nat (length p))"
proof (induction cs h n p rule: MurmurHash32Impl.induct)
  case (1 cs h n)
  then show ?case by (simp add: spec_tail_def)
next
  case (2 cs h n A)
  then show ?case using tail1_Hash1_spec [of cs A h] by auto
next
  case (3 cs h n A B)
  then show ?case using tail2_Hash1_spec [of cs A B h] by auto
next
  case (4 cs h n A B C)
  then show ?case using tail3_Hash1_spec [of cs A B C h] by auto
next
  case (5 cs h n A B C D Tail)
  then have b: "block_Hash3 cs h A B C D = spec_block h A B C D"
    using block_Hash3_spec [of cs A B C D h] by auto
  have eq: "n + 4 + of_nat (length Tail) = n + of_nat (length (A # B # C # D # Tail))"
    by simp
  from 5 have "MurmurHash32Impl cs (block_Hash3 cs h A B C D) (n + 4) Tail
      = final_Hash6 (spec_accumulate (block_Hash3 cs h A B C D) Tail) (n + 4 + of_nat (length Tail))"
    by auto
  then show ?case unfolding eq by (simp add: b)
qed

lemma MurmurHash32_spec_hash32:
  assumes "\<not> cs \<or> (\<forall>c \<in> set Chars. c < 0x80)"
  shows "unat (MurmurHash32 cs Seed Chars) = spec_hash32 Chars Seed"
  unfolding MurmurHash32_def spec_hash32_def MurmurHash32Impl_spec [OF assms] unat_final_Hash6
  by (simp add: unat_of_nat)

text \<open>On packs of characters below \<open>0x80\<close> the signedness of plain \<^verbatim>\<open>char\<close> makes no
  difference to the digest.\<close>

lemma MurmurHash32_seven_bit:
  assumes "\<forall>c \<in> set Chars. c < 0x80"
  shows "MurmurHash32 True Seed Chars = MurmurHash32 False Seed Chars"
proof -
  have "MurmurHash32Impl b Seed 0 Chars
      = final_Hash6 (spec_accumulate Seed Chars) (0 + of_nat (length Chars))" for b
    using assms by (intro MurmurHash32Impl_spec) simp
  then show ?thesis by (simp add: MurmurHash32_def)
qed

section \<open>The typed layer against the value layer\<close>

text \<open>Every operator of the typed layer, where it has a result, has the result of the
  32-bit operator on the converted operands.\<close>

lemma to_uint32_enumerator: "to_uint32 (enumerator x) = to_uint32 x"
  by (cases x) simp_all

lemma nonneg_enumerator: "is_unsigned x \<Longrightarrow> nonneg (enumerator x)"
  by (cases x) (auto intro: order_less_trans)

lemma c_mul_exact: "c_mul x y = Some z \<Longrightarrow> to_uint32 z = to_uint32 x * to_uint32 y"
  by (cases x; cases y) (auto split: if_splits)

lemma c_add_exact: "c_add x y = Some z \<Longrightarrow> to_uint32 z = to_uint32 x + to_uint32 y"
  by (cases x; cases y) (auto split: if_splits)

lemma c_mul_unsigned: "c_mul x (UInt c) = Some z \<Longrightarrow> is_unsigned z"
  by (cases x) auto

lemma c_add_unsigned: "c_add x (UInt c) = Some z \<Longrightarrow> is_unsigned z"
  by (cases x) auto

lemma c_xor_exact: "to_uint32 (c_xor x y) = to_uint32 x XOR to_uint32 y"
  by (cases x; cases y) (simp_all add: of_int_xor_eq)

lemma c_xor_unsigned: "is_unsigned (c_xor (UInt h) y)"
  by simp

lemma c_or_exact: "to_uint32 (c_or x y) = to_uint32 x OR to_uint32 y"
  by (cases x; cases y) (simp_all add: of_int_or_eq)

lemma c_shl_exact: "c_shl x n = Some z \<Longrightarrow> to_uint32 z = push_bit n (to_uint32 x)"
  by (cases x) (auto split: if_splits simp add: push_bit_eq_mult)

lemma c_shr_exact: "nonneg x \<Longrightarrow> to_uint32 (c_shr x n) = drop_bit n (to_uint32 x)"
proof (cases x)
  case (SInt a)
  assume "nonneg x"
  with SInt have a: "0 \<le> a" "a < 2 ^ 32" by simp_all
  then have tb: "take_bit 32 a = a"
    by (simp add: take_bit_int_eq_self)
  have hi: "m < 32" if "bit a m" for m
    using bit_take_bit_iff [of 32 a m] that unfolding tb by simp
  have "drop_bit n (word_of_int a :: uint32) = word_of_int (drop_bit n a)"
    by (rule bit_word_eqI) (auto simp add: bit_simps hi)
  with SInt show ?thesis by (simp add: drop_bit_eq_div)
next
  case (UInt w)
  then show ?thesis by simp
qed

lemma to_uint32_c_char: "to_uint32 (c_char cs c) = promote cs c"
  by (simp add: c_char_def promote_def)

text \<open>The rotation and the mixing of \<^verbatim>\<open>K\<close>, which every tail and the block repeat.\<close>

lemma rotation_exact:
  assumes u: "is_unsigned K"
    and l: "c_shl (enumerator K) r = Some l"
  shows "to_uint32 (c_or l (c_shr (enumerator K) s))
    = push_bit r (to_uint32 K) OR drop_bit s (to_uint32 K)"
proof -
  from u have "nonneg (enumerator K)" by (rule nonneg_enumerator)
  then have "to_uint32 (c_shr (enumerator K) s) = drop_bit s (to_uint32 K)"
    by (simp add: c_shr_exact to_uint32_enumerator)
  moreover from l have "to_uint32 l = push_bit r (to_uint32 K)"
    by (simp add: c_shl_exact to_uint32_enumerator)
  ultimately show ?thesis by (simp add: c_or_exact)
qed

lemma k_mix_exact:
  assumes 1: "c_mul (enumerator K0) C1_lit = Some K1"
    and 2: "c_shl (enumerator K1) R1 = Some l"
    and 3: "c_mul (enumerator (c_or l (c_shr (enumerator K1) (32 - R1)))) C2_lit = Some K3"
  shows "to_uint32 K3
    = (push_bit R1 (to_uint32 K0 * C1) OR drop_bit (32 - R1) (to_uint32 K0 * C1)) * C2"
proof -
  have k1: "to_uint32 K1 = to_uint32 K0 * C1"
    using c_mul_exact [OF 1] by (simp add: to_uint32_enumerator C1_lit_def C1_def)
  from 1 have "is_unsigned K1"
    unfolding C1_lit_def by (rule c_mul_unsigned)
  from rotation_exact [OF this 2]
  have k2: "to_uint32 (c_or l (c_shr (enumerator K1) (32 - R1)))
      = push_bit R1 (to_uint32 K1) OR drop_bit (32 - R1) (to_uint32 K1)" .
  have "to_uint32 K3 = to_uint32 (c_or l (c_shr (enumerator K1) (32 - R1))) * C2"
    using c_mul_exact [OF 3] by (simp add: to_uint32_enumerator C2_lit_def C2_def)
  with k1 k2 show ?thesis by simp
qed

lemma cxx_final_total: "cxx_final Hash Length = Some (final_Hash6 Hash Length)"
proof -
  define Hash1 where "Hash1 = c_xor (UInt Hash) (UInt Length)"
  define Hash2 where "Hash2 = c_xor (enumerator Hash1) (c_shr (enumerator Hash1) 16)"
  define Hash3 where "Hash3 = UInt (to_uint32 (enumerator Hash2) * 0x85ebca6b)"
  define Hash4 where "Hash4 = c_xor (enumerator Hash3) (c_shr (enumerator Hash3) 13)"
  define Hash5 where "Hash5 = UInt (to_uint32 (enumerator Hash4) * 0xc2b2ae35)"
  define Hash6 where "Hash6 = c_xor (enumerator Hash5) (c_shr (enumerator Hash5) 16)"
  have m3: "c_mul (enumerator Hash2) (UInt 0x85ebca6b) = Some Hash3"
    unfolding Hash3_def by (cases "enumerator Hash2") simp_all
  have m5: "c_mul (enumerator Hash4) (UInt 0xc2b2ae35) = Some Hash5"
    unfolding Hash5_def by (cases "enumerator Hash4") simp_all
  have c: "cxx_final Hash Length = Some (to_uint32 Hash6)"
    unfolding cxx_final_def Let_def Hash6_def
    by (simp only: m3 [unfolded Hash2_def Hash1_def] m5 [unfolded Hash4_def] bind.bind_lunit)
  have w1: "to_uint32 Hash1 = Hash XOR Length"
    by (simp add: Hash1_def)
  have "is_unsigned Hash1" by (simp add: Hash1_def)
  then have n1: "nonneg (enumerator Hash1)" by (rule nonneg_enumerator)
  have w2: "to_uint32 Hash2 = to_uint32 Hash1 XOR drop_bit 16 (to_uint32 Hash1)"
    by (simp add: Hash2_def c_xor_exact c_shr_exact [OF n1] to_uint32_enumerator)
  have w3: "to_uint32 Hash3 = to_uint32 Hash2 * 0x85ebca6b"
    by (simp add: Hash3_def to_uint32_enumerator)
  have "is_unsigned Hash3" by (simp add: Hash3_def)
  then have n3: "nonneg (enumerator Hash3)" by (rule nonneg_enumerator)
  have w4: "to_uint32 Hash4 = to_uint32 Hash3 XOR drop_bit 13 (to_uint32 Hash3)"
    by (simp add: Hash4_def c_xor_exact c_shr_exact [OF n3] to_uint32_enumerator)
  have w5: "to_uint32 Hash5 = to_uint32 Hash4 * 0xc2b2ae35"
    by (simp add: Hash5_def to_uint32_enumerator)
  have "is_unsigned Hash5" by (simp add: Hash5_def)
  then have n5: "nonneg (enumerator Hash5)" by (rule nonneg_enumerator)
  have w6: "to_uint32 Hash6 = to_uint32 Hash5 XOR drop_bit 16 (to_uint32 Hash5)"
    by (simp add: Hash6_def c_xor_exact c_shr_exact [OF n5] to_uint32_enumerator)
  have "to_uint32 Hash6 = final_Hash6 Hash Length"
    unfolding final_Hash6_def Let_def w6 w5 w4 w3 w2 w1 ..
  with c show ?thesis by simp
qed

lemma cxx_tail1_exact:
  assumes "cxx_tail1 cs h A = Some h'"
  shows "h' = tail1_Hash1 cs h A"
proof -
  let ?K0 = "c_xor (SInt 0x00000000) (c_char cs A)"
  from assms obtain K1 l K3 where
    1: "c_mul (enumerator ?K0) C1_lit = Some K1"
    and 2: "c_shl (enumerator K1) R1 = Some l"
    and 3: "c_mul (enumerator (c_or l (c_shr (enumerator K1) (32 - R1)))) C2_lit = Some K3"
    and h: "h' = to_uint32 (c_xor (UInt h) (enumerator K3))"
    unfolding cxx_tail1_def Let_def by (auto simp add: bind_eq_Some_conv)
  have k0: "to_uint32 ?K0 = 0x00000000 XOR promote cs A"
    by (simp add: c_xor_exact to_uint32_c_char)
  from k_mix_exact [OF 1 2 3] h show ?thesis
    unfolding tail1_Hash1_def Let_def k0
    by (simp add: to_uint32_enumerator)
qed

lemma cxx_tail2_exact:
  assumes "cxx_tail2 cs h A B = Some h'"
  shows "h' = tail2_Hash1 cs h A B"
proof -
  from assms obtain b K2 l K4 where
    b: "c_shl (c_char cs B) 8 = Some b"
    and 1: "c_mul (enumerator (c_xor (enumerator (c_xor (SInt 0x00000000) b)) (c_char cs A))) C1_lit
        = Some K2"
    and 2: "c_shl (enumerator K2) R1 = Some l"
    and 3: "c_mul (enumerator (c_or l (c_shr (enumerator K2) (32 - R1)))) C2_lit = Some K4"
    and h: "h' = to_uint32 (c_xor (UInt h) (enumerator K4))"
    unfolding cxx_tail2_def Let_def by (auto simp add: bind_eq_Some_conv)
  have "to_uint32 b = push_bit 8 (promote cs B)"
    using c_shl_exact [OF b] by (simp add: to_uint32_c_char)
  then have k1: "to_uint32 (c_xor (enumerator (c_xor (SInt 0x00000000) b)) (c_char cs A))
      = (0x00000000 XOR push_bit 8 (promote cs B)) XOR promote cs A"
    by (simp add: c_xor_exact to_uint32_c_char to_uint32_enumerator)
  from k_mix_exact [OF 1 2 3] h show ?thesis
    unfolding tail2_Hash1_def Let_def k1
    by (simp add: to_uint32_enumerator)
qed

lemma cxx_tail3_exact:
  assumes "cxx_tail3 cs h A B C = Some h'"
  shows "h' = tail3_Hash1 cs h A B C"
proof -
  from assms obtain c b K3 l K5 where
    c: "c_shl (c_char cs C) 16 = Some c"
    and b: "c_shl (c_char cs B) 8 = Some b"
    and 1: "c_mul (enumerator (c_xor (enumerator (c_xor (enumerator (c_xor (SInt 0) c)) b))
              (c_char cs A))) C1_lit = Some K3"
    and 2: "c_shl (enumerator K3) R1 = Some l"
    and 3: "c_mul (enumerator (c_or l (c_shr (enumerator K3) (32 - R1)))) C2_lit = Some K5"
    and h: "h' = to_uint32 (c_xor (UInt h) (enumerator K5))"
    unfolding cxx_tail3_def Let_def by (auto simp add: bind_eq_Some_conv)
  have c': "to_uint32 c = push_bit 16 (promote cs C)"
    using c_shl_exact [OF c] by (simp add: to_uint32_c_char)
  have b': "to_uint32 b = push_bit 8 (promote cs B)"
    using c_shl_exact [OF b] by (simp add: to_uint32_c_char)
  have k2: "to_uint32 (c_xor (enumerator (c_xor (enumerator (c_xor (SInt 0) c)) b)) (c_char cs A))
      = ((0 XOR push_bit 16 (promote cs C)) XOR push_bit 8 (promote cs B)) XOR promote cs A"
    by (simp add: c_xor_exact to_uint32_c_char to_uint32_enumerator c' b')
  from k_mix_exact [OF 1 2 3] h show ?thesis
    unfolding tail3_Hash1_def Let_def k2
    by (simp add: to_uint32_enumerator)
qed

lemma cxx_block_exact:
  assumes "cxx_block cs h A B C D = Some h'"
  shows "h' = block_Hash3 cs h A B C D"
proof -
  from assms obtain d c b K1 l K3 m p Hash3 where
    d: "c_shl (c_char cs D) 24 = Some d"
    and c: "c_shl (c_char cs C) 16 = Some c"
    and b: "c_shl (c_char cs B) 8 = Some b"
    and 1: "c_mul (enumerator (c_or (c_or (c_or d c) b) (c_char cs A))) C1_lit = Some K1"
    and 2: "c_shl (enumerator K1) R1 = Some l"
    and 3: "c_mul (enumerator (c_or l (c_shr (enumerator K1) (32 - R1)))) C2_lit = Some K3"
    and m: "c_shl (enumerator (c_xor (UInt h) (enumerator K3))) R2 = Some m"
    and p: "c_mul (enumerator (c_or m (c_shr (enumerator (c_xor (UInt h) (enumerator K3)))
              (32 - R2)))) M_lit = Some p"
    and a: "c_add p N_lit = Some Hash3"
    and h: "h' = to_uint32 Hash3"
    unfolding cxx_block_def Let_def by (auto simp add: bind_eq_Some_conv)
  have d': "to_uint32 d = push_bit 24 (promote cs D)"
    using c_shl_exact [OF d] by (simp add: to_uint32_c_char)
  have c': "to_uint32 c = push_bit 16 (promote cs C)"
    using c_shl_exact [OF c] by (simp add: to_uint32_c_char)
  have b': "to_uint32 b = push_bit 8 (promote cs B)"
    using c_shl_exact [OF b] by (simp add: to_uint32_c_char)
  have k0: "to_uint32 (c_or (c_or (c_or d c) b) (c_char cs A)) = block_K0 cs A B C D"
    by (simp add: block_K0_def c_or_exact to_uint32_c_char d' c' b')
  note k3 = k_mix_exact [OF 1 2 3, unfolded k0]
  let ?Hash1 = "c_xor (UInt h) (enumerator K3)"
  have h1: "to_uint32 ?Hash1 = h XOR to_uint32 K3"
    by (simp add: c_xor_exact to_uint32_enumerator)
  have "is_unsigned ?Hash1" by (rule c_xor_unsigned)
  from rotation_exact [OF this m]
  have h2: "to_uint32 (c_or m (c_shr (enumerator ?Hash1) (32 - R2)))
      = push_bit R2 (to_uint32 ?Hash1) OR drop_bit (32 - R2) (to_uint32 ?Hash1)" .
  have p': "to_uint32 p = to_uint32 (c_or m (c_shr (enumerator ?Hash1) (32 - R2))) * M"
    using c_mul_exact [OF p] by (simp add: to_uint32_enumerator M_lit_def M_def)
  have "to_uint32 Hash3 = to_uint32 p + N"
    using c_add_exact [OF a] by (simp add: N_lit_def N_def)
  with h show ?thesis
    unfolding block_Hash3_def Let_def p' h2 h1 k3 by simp
qed

lemma cxx_MurmurHash32Impl_exact:
  "cxx_MurmurHash32Impl cs h n p = Some d \<Longrightarrow> d = MurmurHash32Impl cs h n p"
proof (induction cs h n p rule: cxx_MurmurHash32Impl.induct)
  case (1 cs h n)
  then show ?case by (simp add: cxx_final_total)
next
  case (2 cs h n A)
  then show ?case by (auto split: option.splits dest: cxx_tail1_exact)
next
  case (3 cs h n A B)
  then show ?case by (auto split: option.splits dest: cxx_tail2_exact)
next
  case (4 cs h n A B C)
  then show ?case by (auto split: option.splits dest: cxx_tail3_exact)
next
  case (5 cs h n A B C D Tail)
  then show ?case by (auto split: option.splits dest: cxx_block_exact)
qed

lemma cxx_MurmurHash32_exact:
  "cxx_MurmurHash32 cs Seed Chars = Some d \<Longrightarrow> d = MurmurHash32 cs Seed Chars"
  unfolding cxx_MurmurHash32_def MurmurHash32_def by (rule cxx_MurmurHash32Impl_exact)

text \<open>The chain of the header is a part of the chain of the value layer, so a step
  shortens the pack, by four characters or to the empty pack, and no infinite chain
  exists.\<close>

lemma cxx_refers_to_refers_to: "cxx_refers_to cs x y \<Longrightarrow> refers_to cs x y"
proof (induction rule: cxx_refers_to.induct)
  case (tail1 Hash A Hash1 Length)
  then have "Hash1 = tail1_Hash1 cs Hash A" by (rule cxx_tail1_exact)
  then show ?case by (simp add: refers_to.tail1)
next
  case (tail2 Hash A B Hash1 Length)
  then have "Hash1 = tail2_Hash1 cs Hash A B" by (rule cxx_tail2_exact)
  then show ?case by (simp add: refers_to.tail2)
next
  case (tail3 Hash A B C Hash1 Length)
  then have "Hash1 = tail3_Hash1 cs Hash A B C" by (rule cxx_tail3_exact)
  then show ?case by (simp add: refers_to.tail3)
next
  case (block Hash A B C D Hash3 Length Tail)
  then have "Hash3 = block_Hash3 cs Hash A B C D" by (rule cxx_block_exact)
  then show ?case by (simp add: refers_to.block)
qed

lemma cxx_refers_to_step_size:
  "cxx_refers_to cs (h1, n1, p1) (h2, n2, p2) \<Longrightarrow>
     length p2 < length p1 \<and> (p2 = [] \<and> length p1 \<le> 3 \<or> length p1 = length p2 + 4)"
  by (rule refers_to_step_size) (rule cxx_refers_to_refers_to)

lemma wfp_cxx_refers_to: "wfp (\<lambda>y x. cxx_refers_to cs x y)"
proof (rule wfp_if_convertible_to_nat)
  fix x y :: impl_args
  assume "cxx_refers_to cs y x"
  then have "refers_to cs y x" by (rule cxx_refers_to_refers_to)
  moreover obtain h1 n1 p1 h2 n2 p2 where "y = (h1, n1, p1)" "x = (h2, n2, p2)"
    by (metis prod_cases3)
  ultimately show "length (snd (snd x)) < length (snd (snd y))"
    by (auto dest: refers_to_consumes)
qed

text \<open>Where the instantiation has a value, its chain has \<open>chain_length\<close> steps and ends in
  the specialisation for the empty pack, with the number of characters as \<^verbatim>\<open>Length\<close>.\<close>

lemma cxx_chain_reaches_final:
  "cxx_MurmurHash32Impl cs h n p = Some d \<Longrightarrow>
     \<exists>h'. (cxx_refers_to cs ^^ chain_length p) (h, n, p) (h', n + of_nat (length p), [])
        \<and> d = final_Hash6 h' (n + of_nat (length p))"
proof (induction cs h n p arbitrary: d rule: cxx_MurmurHash32Impl.induct)
  case (1 cs h n)
  then show ?case by (simp add: chain_length_simps cxx_final_total)
next
  case (2 cs h n A)
  then obtain h1 where t: "cxx_tail1 cs h A = Some h1" and d: "d = final_Hash6 h1 (n + 1)"
    by (auto split: option.splits simp add: cxx_final_total)
  from t have "cxx_refers_to cs (h, n, [A]) (h1, n + 1, [])" by (rule cxx_refers_to.tail1)
  with d show ?case by (auto simp add: chain_length_simps)
next
  case (3 cs h n A B)
  then obtain h1 where t: "cxx_tail2 cs h A B = Some h1" and d: "d = final_Hash6 h1 (n + 2)"
    by (auto split: option.splits simp add: cxx_final_total)
  from t have "cxx_refers_to cs (h, n, [A, B]) (h1, n + 2, [])" by (rule cxx_refers_to.tail2)
  with d show ?case by (auto simp add: chain_length_simps)
next
  case (4 cs h n A B C)
  then obtain h1 where t: "cxx_tail3 cs h A B C = Some h1" and d: "d = final_Hash6 h1 (n + 3)"
    by (auto split: option.splits simp add: cxx_final_total)
  from t have "cxx_refers_to cs (h, n, [A, B, C]) (h1, n + 3, [])" by (rule cxx_refers_to.tail3)
  with d show ?case by (auto simp add: chain_length_simps)
next
  case (5 cs h n A B C D Tail)
  from 5(2) obtain h3 where b: "cxx_block cs h A B C D = Some h3"
    and r: "cxx_MurmurHash32Impl cs h3 (n + 4) Tail = Some d"
    by (auto split: option.splits)
  from 5(1) [OF b r] obtain h' where
    ch: "(cxx_refers_to cs ^^ chain_length Tail) (h3, n + 4, Tail)
           (h', n + 4 + of_nat (length Tail), [])"
    and v: "d = final_Hash6 h' (n + 4 + of_nat (length Tail))"
    by blast
  from b have st: "cxx_refers_to cs (h, n, A # B # C # D # Tail) (h3, n + 4, Tail)"
    by (rule cxx_refers_to.block)
  have eq: "n + 4 + of_nat (length Tail) = n + of_nat (length (A # B # C # D # Tail))"
    by simp
  from st ch have "(cxx_refers_to cs ^^ Suc (chain_length Tail)) (h, n, A # B # C # D # Tail)
      (h', n + 4 + of_nat (length Tail), [])"
    by (rule relpowp_Suc_I2)
  with v show ?case
    unfolding eq chain_length_simps by auto
qed

section \<open>Instantiations evaluated\<close>

lemmas cxx_defs = cxx_MurmurHash32_def cxx_final_def cxx_tail1_def cxx_tail2_def cxx_tail3_def
  cxx_block_def c_char_def C1_lit_def C2_lit_def M_lit_def N_lit_def R1_def R2_def int_range_def
  Let_def


lemma cxx_vector_a: "cxx_MurmurHash32 char_signed 0 (map of_char ''a'') = Some 0x3c2569b2"
  by (simp add: cxx_defs)


lemma cxx_vector_a_seed1: "cxx_MurmurHash32 char_signed 1 (map of_char ''a'') = Some 0x588adce8"
  by (simp add: cxx_defs)


lemma cxx_block_abcd_ill_formed: "cxx_block char_signed Hash 0x61 0x62 0x63 0x64 = None"
  by (simp add: cxx_defs)

lemma cxx_abcd_ill_formed: "cxx_MurmurHash32 char_signed Seed (map of_char ''abcd'') = None"
  by (simp add: cxx_MurmurHash32_def cxx_block_abcd_ill_formed)

lemma cxx_abcde_ill_formed:
  "cxx_MurmurHash32Impl char_signed Hash Length (map of_char ''abcde'') = None"
  by (simp add: cxx_block_abcd_ill_formed)

lemma cxx_block_abcd_no_step:
  "\<not> cxx_refers_to char_signed (Hash, Length, 0x61 # 0x62 # 0x63 # 0x64 # Tail) y"
  by (auto elim: cxx_refers_to.cases simp add: cxx_block_abcd_ill_formed)

lemma cxx_i_seed_H_ill_formed: "cxx_MurmurHash32 char_signed 72 (map of_char ''i'') = None"
  by (simp add: cxx_defs)

lemma cxx_81_69_signed: "cxx_MurmurHash32 True 0 [0x81, 0x69] = Some 0x89ca7072"
  by (simp add: cxx_defs)

lemma cxx_81_69_unsigned: "cxx_MurmurHash32 False 0 [0x81, 0x69] = Some 0x891e267c"
  by (simp add: cxx_defs)


lemma vector_abcd: "MurmurHash32 char_signed 0 (map of_char ''abcd'') = 0x43ed676a"
  by (simp add: MurmurHash32_def final_Hash6_def block_Hash3_def block_K0_def
      promote_def C1_def C2_def R1_def R2_def M_def N_def)

lemma vector_abcd_seed1: "MurmurHash32 char_signed 1 (map of_char ''abcd'') = 0x9bf54592"
  by (simp add: MurmurHash32_def final_Hash6_def block_Hash3_def block_K0_def
      promote_def C1_def C2_def R1_def R2_def M_def N_def)

lemma vector_i_seed_H: "MurmurHash32 char_signed 72 (map of_char ''i'') = 0x4ce2c03a"
  by (simp add: MurmurHash32_def final_Hash6_def tail1_Hash1_def promote_def
      C1_def C2_def R1_def)






lemma spec_vector_Hi: "spec_hash32 (map of_char ''Hi'') 0 = 0x03516b65"
proof -
  have acc: "spec_accumulate 0 (map of_char ''Hi'') = 2559880619"
    by (simp add: spec_tail_def spec_mix_k_def flip: rotl_shift_or)
  show ?thesis unfolding spec_hash32_def acc
    by (simp add: spec_finalize_def Let_def numeral_2_eq_2 [symmetric])
qed

lemma spec_vector_81_69: "spec_hash32 [0x81, 0x69] 0 = 0x891e267c"
proof -
  have acc: "spec_accumulate 0 [0x81, 0x69] = 1785370687"
    by (simp add: spec_tail_def spec_mix_k_def flip: rotl_shift_or)
  show ?thesis unfolding spec_hash32_def acc
    by (simp add: spec_finalize_def Let_def numeral_2_eq_2 [symmetric])
qed

section \<open>Known test vectors\<close>



section \<open>Blocks and tails\<close>

text \<open>
  Claim C2. Each complete block of four characters is folded in as the claim says
  (\<open>block_Hash3_mix\<close>: times \<open>0xcc9e2d51\<close>, rotation by 15, times \<open>0x1b873593\<close>, XOR into
  the hash, rotation by 13, times 5 plus \<open>0xe6546b64\<close>), blocks are taken in the order of
  the pack and each receives the enumerator \<^verbatim>\<open>Hash3\<close> of the one before
  (\<open>MurmurHash32Impl_spec\<close>), and the word \<^verbatim>\<open>K0\<close> is the little-endian word of the four
  bytes whenever every promotion extends by zeros (\<open>block_K0_spec\<close>). Where plain
  \<^verbatim>\<open>char\<close> is signed, a character from \<open>0x80\<close> on is negative and \<^verbatim>\<open>| A\<close> sets every higher
  bit of \<^verbatim>\<open>K0\<close> (\<open>block_K0_negative\<close>): for the block \<open>0xE9\<close>, \<open>a\<close>, \<open>a\<close>, \<open>a\<close> the header
  assembles \<open>0xFFFFFFE9\<close> where the claim's word is \<open>0x616161E9\<close>, its digest
  \<open>0xdfd39b28\<close> is not the digest \<open>0xf0fe252d\<close> of the algorithm in the specification's
  words, and the block \<open>0xE9\<close>, \<open>a\<close>, \<open>a\<close>, \<open>b\<close> gets the same digest. Both instantiations
  are well-formed: the typed layer has these values too.
\<close>

theorem block_sign_extension:
  "block_K0 True 0xE9 0x61 0x61 0x61 = 0xFFFFFFE9
   \<and> spec_chunk_word 0xE9 0x61 0x61 0x61 = 0x616161E9
   \<and> block_Hash3 True 0 0xE9 0x61 0x61 0x61 = 0x66e84e0b
   \<and> spec_block 0 0xE9 0x61 0x61 0x61 = 0xa3b35e01
   \<and> MurmurHash32 True 0 [0xE9, 0x61, 0x61, 0x61] = 0xdfd39b28
   \<and> spec_hash32 [0xE9, 0x61, 0x61, 0x61] 0 = 0xf0fe252d
   \<and> MurmurHash32 True 0 [0xE9, 0x61, 0x61, 0x62] = 0xdfd39b28
   \<and> spec_hash32 [0xE9, 0x61, 0x61, 0x62] 0 = 0x3bb6b64c
   \<and> block_K0 True 0xE9 0x61 0x61 0x61 \<noteq> spec_chunk_word 0xE9 0x61 0x61 0x61
   \<and> block_Hash3 True 0 0xE9 0x61 0x61 0x61 \<noteq> spec_block 0 0xE9 0x61 0x61 0x61
   \<and> cxx_MurmurHash32 True 0 [0xE9, 0x61, 0x61, 0x61] = Some 0xdfd39b28
   \<and> cxx_MurmurHash32 True 0 [0xE9, 0x61, 0x61, 0x62] = Some 0xdfd39b28"
proof -
  have k: "block_K0 True 0xE9 B C D = 0xFFFFFFE9" for B C D
    by (simp add: block_K0_negative)
  have w: "spec_chunk_word 0xE9 0x61 0x61 0x61 = 0x616161E9"
    by (simp add: spec_chunk_word_def)
  have w': "spec_chunk_word 0xE9 0x61 0x61 0x62 = 0x626161E9"
    by (simp add: spec_chunk_word_def)
  have b: "block_Hash3 True 0 0xE9 B C D = 0x66e84e0b" for B C D
    by (simp add: block_Hash3_def k C1_def C2_def R1_def R2_def M_def N_def)
  have s: "spec_block 0 0xE9 0x61 0x61 0x61 = 0xa3b35e01"
    by (simp add: spec_block_def w spec_mix_k_def flip: rotl_shift_or)
  have s': "spec_block 0 0xE9 0x61 0x61 0x62 = 0xbca34c7c"
    by (simp add: spec_block_def w' spec_mix_k_def flip: rotl_shift_or)
  have m: "MurmurHash32 True 0 [0xE9, B, C, D] = 0xdfd39b28" for B C D
    by (simp add: MurmurHash32_def b final_Hash6_def)
  have acc: "spec_accumulate 0 [0xE9, 0x61, 0x61, 0x61] = 0xa3b35e01"
    by (simp add: s spec_tail_def)
  have acc': "spec_accumulate 0 [0xE9, 0x61, 0x61, 0x62] = 0xbca34c7c"
    by (simp add: s' spec_tail_def)
  have h: "spec_hash32 [0xE9, 0x61, 0x61, 0x61] 0 = 0xf0fe252d"
    unfolding spec_hash32_def acc
    by (simp add: spec_finalize_def Let_def)
  have h': "spec_hash32 [0xE9, 0x61, 0x61, 0x62] 0 = 0x3bb6b64c"
    unfolding spec_hash32_def acc'
    by (simp add: spec_finalize_def Let_def)
  have nk: "block_K0 True 0xE9 0x61 0x61 0x61 \<noteq> spec_chunk_word 0xE9 0x61 0x61 0x61"
    unfolding k w by simp
  have nb: "block_Hash3 True 0 0xE9 0x61 0x61 0x61 \<noteq> spec_block 0 0xE9 0x61 0x61 0x61"
    unfolding b s by simp
  have k1: "block_K0 True 0xE9 0x61 0x61 0x61 = 0xFFFFFFE9" by (rule k)
  have b1: "block_Hash3 True 0 0xE9 0x61 0x61 0x61 = 0x66e84e0b" by (rule b)
  have m1: "MurmurHash32 True 0 [0xE9, 0x61, 0x61, 0x61] = 0xdfd39b28" by (rule m)
  have m2: "MurmurHash32 True 0 [0xE9, 0x61, 0x61, 0x62] = 0xdfd39b28" by (rule m)
  have x1: "cxx_MurmurHash32 True 0 [0xE9, 0x61, 0x61, 0x61] = Some 0xdfd39b28"
    by (simp add: cxx_defs)
  have x2: "cxx_MurmurHash32 True 0 [0xE9, 0x61, 0x61, 0x62] = Some 0xdfd39b28"
    by (simp add: cxx_defs)
  from k1 w b1 s m1 h m2 h' nk nb x1 x2 show ?thesis by blast
qed

text \<open>
  Claim C3. The one, two or three trailing characters enter the hash through a single
  XOR, with none of the rotation by 13, the multiplication by 5 and the addition that
  a full block applies (\<open>tail1_Hash1_mix\<close>, \<open>tail2_Hash1_mix\<close>, \<open>tail3_Hash1_mix\<close>), and an
  empty tail changes nothing. The partial word has zeros above the bytes whenever
  every promotion extends by zeros (\<open>tail1_Hash1_spec\<close>, \<open>tail2_Hash1_spec\<close>,
  \<open>tail3_Hash1_spec\<close>). Where plain \<^verbatim>\<open>char\<close> is signed, a character from \<open>0x80\<close> on is
  negative: for the one-character pack \<open>0xE9\<close> the header's partial word is
  \<open>0xFFFFFFE9\<close>, not \<open>0xE9\<close>, and the digest is \<open>0x1a4ae4ef\<close> where the algorithm of the
  specification gives \<open>0x44c6d4b2\<close>. The instantiation is well-formed: the typed layer
  has this value too.
\<close>

theorem tail_sign_extension:
  "0x00000000 XOR promote True 0xE9 = 0xFFFFFFE9
   \<and> spec_tail_word [0xE9] = 0xE9
   \<and> tail1_Hash1 True 0 0xE9 = 2648441068
   \<and> spec_tail 0 [0xE9] = 2000727585
   \<and> MurmurHash32 True 0 [0xE9] = 0x1a4ae4ef
   \<and> spec_hash32 [0xE9] 0 = 0x44c6d4b2
   \<and> tail1_Hash1 True 0 0xE9 \<noteq> spec_tail 0 [0xE9]
   \<and> cxx_MurmurHash32 True 0 [0xE9] = Some 0x1a4ae4ef"
proof -
  have k: "0x00000000 XOR promote True 0xE9 = 0xFFFFFFE9"
    by (simp add: promote_def)
  have w: "spec_tail_word [0xE9] = 0xE9"
    by simp
  have t: "tail1_Hash1 True 0 0xE9 = 2648441068"
    by (simp add: tail1_Hash1_def promote_def C1_def C2_def R1_def)
  have s: "spec_tail 0 [0xE9] = 2000727585"
    by (simp add: spec_tail_def spec_mix_k_def flip: rotl_shift_or)
  have m: "MurmurHash32 True 0 [0xE9] = 0x1a4ae4ef"
    by (simp add: MurmurHash32_def t final_Hash6_def)
  have acc: "spec_accumulate 0 [0xE9] = 2000727585"
    by (simp add: s)
  have h: "spec_hash32 [0xE9] 0 = 0x44c6d4b2"
    unfolding spec_hash32_def acc
    by (simp add: spec_finalize_def Let_def)
  have nt: "tail1_Hash1 True 0 0xE9 \<noteq> spec_tail 0 [0xE9]"
    unfolding t s by simp
  have x: "cxx_MurmurHash32 True 0 [0xE9] = Some 0x1a4ae4ef"
    by (simp add: cxx_defs)
  from k w t s m h nt x show ?thesis by blast
qed

section \<open>The final calculation and the length\<close>

text \<open>
  Claim C4. For every accumulator \<open>h\<close> and length \<open>n\<close> the final calculation yields
  the digest of the claim's six steps, read on the unsigned values: XOR with \<open>n\<close>,
  XOR with the value divided by \<open>2 ^ 16\<close> (a shift that fills with zeros), times
  \<open>0x85ebca6b\<close> modulo \<open>2 ^ 32\<close>, XOR with the value divided by \<open>2 ^ 13\<close>, times
  \<open>0xc2b2ae35\<close> modulo \<open>2 ^ 32\<close>, XOR with the value divided by \<open>2 ^ 16\<close>. The length
  that reaches the final calculation from the public interface is the number of
  characters of the pack, as a 32-bit value. The final calculation has no operation
  that can overflow: in the typed layer it has this value for every \<open>h\<close> and \<open>n\<close>, and
  on every pack for which the header has a digest its own chain hands it the number
  of characters too (\<open>cxx_chain_reaches_final\<close>).
\<close>

theorem final_calculation_exact:
  "unat (MurmurHash32Impl char_signed h n []) = spec_finalize (unat h) (unat n)
   \<and> (\<exists>h'. (refers_to char_signed ^^ chain_length Chars) (Seed, 0, Chars)
               (h', of_nat (length Chars), [])
          \<and> MurmurHash32 char_signed Seed Chars
               = MurmurHash32Impl char_signed h' (of_nat (length Chars)) [])
   \<and> unat (of_nat (length Chars) :: uint32) = length Chars mod 2 ^ 32
   \<and> cxx_MurmurHash32Impl char_signed h n [] = Some (MurmurHash32Impl char_signed h n [])"
proof -
  have a: "unat (MurmurHash32Impl char_signed h n []) = spec_finalize (unat h) (unat n)"
    by (simp add: unat_final_Hash6)
  from chain_reaches_final [where cs = char_signed and p = Chars and h = Seed and n = 0]
  have b: "\<exists>h'. (refers_to char_signed ^^ chain_length Chars) (Seed, 0, Chars)
               (h', of_nat (length Chars), [])
          \<and> MurmurHash32 char_signed Seed Chars
               = MurmurHash32Impl char_signed h' (of_nat (length Chars)) []"
    by (simp add: MurmurHash32_def)
  have c: "unat (of_nat (length Chars) :: uint32) = length Chars mod 2 ^ 32"
    by (simp add: unat_of_nat)
  have d: "cxx_MurmurHash32Impl char_signed h n [] = Some (MurmurHash32Impl char_signed h n [])"
    by (simp add: cxx_final_total)
  from a b c d show ?thesis by blast
qed

text \<open>
  Claim C5. For every seed the digest of the empty pack is the final calculation
  applied to the seed and the length 0: no block and no tail specialisation is
  instantiated (the chain has length 0 and the first instantiation names no other),
  the XOR with the length 0 leaves the seed as it is, and the digest is the avalanche
  of the seed. The instantiation is well-formed for every seed: the typed layer has
  this value.
\<close>

theorem MurmurHash32_empty:
  "MurmurHash32 char_signed Seed [] = final_Hash6 Seed 0
   \<and> final_Hash6 Seed 0 = final_Hash6 (Seed XOR 0) 0
   \<and> MurmurHash32 char_signed Seed [] = avalanche Seed
   \<and> unat (MurmurHash32 char_signed Seed []) = spec_finalize (unat Seed) 0
   \<and> chain_length [] = 0
   \<and> (\<forall>y. \<not> refers_to char_signed (Seed, 0, []) y)
   \<and> cxx_MurmurHash32 char_signed Seed [] = Some (final_Hash6 Seed 0)"
proof -
  have "unat (MurmurHash32 char_signed Seed []) = spec_finalize (unat Seed) 0"
    using unat_final_Hash6 [of Seed 0] by (simp add: MurmurHash32_def)
  then show ?thesis
    by (simp add: MurmurHash32_def final_Hash6_avalanche chain_length_simps no_refers_to_empty
        cxx_MurmurHash32_def cxx_final_total)
qed

section \<open>The seed\<close>

text \<open>
  Claim C6. The header's usage comment instantiates the interface with the characters
  \<open>H\<close> and \<open>i\<close> only. Template arguments bind by position and \<^verbatim>\<open>Seed\<close> has no default
  argument, so that instantiation has the seed 72 (the character \<open>H\<close>) and the pack
  \<open>i\<close>. The header has no digest for it (\<^verbatim>\<open>K2 * C2\<close> overflows), and the digest that the
  arithmetic of its comment gives, \<open>0x4ce2c03a\<close>, is not the digest \<open>0x03516b65\<close> of \<open>Hi\<close>
  with the seed 0, which the claim's default of 0 promises.
\<close>

theorem usage_comment_instantiation:
  "of_char CHR ''H'' = (72 :: uint32)
   \<and> cxx_MurmurHash32 char_signed 72 (map of_char ''i'') = None
   \<and> MurmurHash32 char_signed 72 (map of_char ''i'') = 0x4ce2c03a
   \<and> spec_hash32 (map of_char ''Hi'') 0 = 0x03516b65"
proof -
  have "of_char CHR ''H'' = (72 :: uint32)" by simp
  with cxx_i_seed_H_ill_formed [of char_signed] vector_i_seed_H [of char_signed] spec_vector_Hi
  show ?thesis by blast
qed

text \<open>
  Claim C8. The digests of \<open>a\<close> with the seeds 0 and 1 exist and differ. For \<open>abcd\<close>
  the block specialisation is ill-formed with every seed (\<^verbatim>\<open>K1\<close> does not depend on the
  seed and \<^verbatim>\<open>K1 << R1\<close> overflows), so the header has no digest of \<open>abcd\<close> with the seed 0
  and none with the seed 1, and nothing to tell apart. In the arithmetic of the
  header's comment the two digests are \<open>0x43ed676a\<close> and \<open>0x9bf54592\<close>.
\<close>

theorem abcd_has_no_digest:
  "cxx_block char_signed 0 0x61 0x62 0x63 0x64 = None
   \<and> cxx_block char_signed 1 0x61 0x62 0x63 0x64 = None
   \<and> cxx_MurmurHash32 char_signed 0 (map of_char ''abcd'') = None
   \<and> cxx_MurmurHash32 char_signed 1 (map of_char ''abcd'') = None
   \<and> MurmurHash32 char_signed 0 (map of_char ''abcd'') = 0x43ed676a
   \<and> MurmurHash32 char_signed 1 (map of_char ''abcd'') = 0x9bf54592
   \<and> cxx_MurmurHash32 char_signed 0 (map of_char ''a'') = Some 0x3c2569b2
   \<and> cxx_MurmurHash32 char_signed 1 (map of_char ''a'') = Some 0x588adce8
   \<and> cxx_MurmurHash32 char_signed 0 (map of_char ''a'')
       \<noteq> cxx_MurmurHash32 char_signed 1 (map of_char ''a'')"
proof -
  have "cxx_MurmurHash32 char_signed 0 (map of_char ''a'')
      \<noteq> cxx_MurmurHash32 char_signed 1 (map of_char ''a'')"
    unfolding cxx_vector_a cxx_vector_a_seed1 by simp
  with cxx_block_abcd_ill_formed [of char_signed 0] cxx_block_abcd_ill_formed [of char_signed 1]
    cxx_abcd_ill_formed [of char_signed 0] cxx_abcd_ill_formed [of char_signed 1]
    vector_abcd [of char_signed] vector_abcd_seed1 [of char_signed]
    cxx_vector_a [of char_signed] cxx_vector_a_seed1 [of char_signed]
  show ?thesis by blast
qed

section \<open>Determinism and termination\<close>

text \<open>
  Claim C7. On one implementation the digest is a function of the seed and the pack,
  and no memory is read, so no byte order of the host enters. But the digest is not
  determined by the seed and the bytes alone: the pack \<open>0x81\<close>, \<open>0x69\<close> with the seed 0 is
  well-formed where plain \<^verbatim>\<open>char\<close> is signed and where it is unsigned, and its digests
  are \<open>0x89ca7072\<close> and \<open>0x891e267c\<close>. The second is the digest of the algorithm in the
  words of the specification; the first comes from the sign extension of \<open>0x81\<close>.
\<close>

theorem char_signedness_changes_digest:
  "cxx_MurmurHash32 True 0 [0x81, 0x69] = Some 0x89ca7072
   \<and> cxx_MurmurHash32 False 0 [0x81, 0x69] = Some 0x891e267c
   \<and> spec_hash32 [0x81, 0x69] 0 = 0x891e267c
   \<and> cxx_MurmurHash32 True 0 [0x81, 0x69] \<noteq> cxx_MurmurHash32 False 0 [0x81, 0x69]"
proof -
  have "cxx_MurmurHash32 True 0 [0x81, 0x69] \<noteq> cxx_MurmurHash32 False 0 [0x81, 0x69]"
    unfolding cxx_81_69_signed cxx_81_69_unsigned by simp
  with cxx_81_69_signed cxx_81_69_unsigned spec_vector_81_69 show ?thesis by blast
qed

text \<open>
  Claim C9. Every chain of instantiations of the header is finite
  (\<open>wfp_cxx_refers_to\<close>), and a step consumes four characters or all that are left
  (\<open>cxx_refers_to_step_size\<close>). But the chain does not reach the final
  calculation for every pack: for the pack \<open>abcde\<close> the block specialisation is
  ill-formed (\<^verbatim>\<open>K1 << R1\<close> overflows, line 190) with every \<^verbatim>\<open>Hash\<close> and \<^verbatim>\<open>Length\<close>. The
  first instantiation names no other, the specialisation for the empty pack is never
  instantiated, and there is no digest.
\<close>

theorem abcde_chain_stops:
  "cxx_block char_signed Hash 0x61 0x62 0x63 0x64 = None
   \<and> (\<forall>y. \<not> cxx_refers_to char_signed (Hash, Length, map of_char ''abcde'') y)
   \<and> cxx_MurmurHash32Impl char_signed Hash Length (map of_char ''abcde'') = None
   \<and> cxx_MurmurHash32 char_signed Seed (map of_char ''abcde'') = None"
proof -
  have "\<not> cxx_refers_to char_signed (Hash, Length, map of_char ''abcde'') y" for y
    using cxx_block_abcd_no_step [of char_signed Hash Length "[0x65]" y] by simp
  with cxx_block_abcd_ill_formed [of char_signed Hash]
    cxx_abcde_ill_formed [of char_signed Hash Length] cxx_abcde_ill_formed [of char_signed Seed 0]
  show ?thesis by (simp add: cxx_MurmurHash32_def)
qed

section \<open>The avalanche is a bijection\<close>

lemma bij_xorshift16: "bij (\<lambda>x :: uint32. x XOR drop_bit 16 x)"
  by (rule bij_betw_byWitness [where f' = "\<lambda>x. x XOR drop_bit 16 x"])
    (simp_all only: xorshift16_involution, simp_all)

lemma bij_xorshift13: "bij (\<lambda>x :: uint32. x XOR drop_bit 13 x)"
  by (rule bij_betw_byWitness [where f' = "\<lambda>y. y XOR drop_bit 13 y XOR drop_bit 26 y"])
    (simp_all only: xorshift13_left xorshift13_right, simp_all)

lemma bij_mult_85ebca6b: "bij (\<lambda>x :: uint32. x * 0x85ebca6b)"
  by (rule bij_betw_byWitness [where f' = "\<lambda>x. x * 0xa5cb9243"])
    (simp_all only: mult_85ebca6b, simp_all)

lemma bij_mult_c2b2ae35: "bij (\<lambda>x :: uint32. x * 0xc2b2ae35)"
  by (rule bij_betw_byWitness [where f' = "\<lambda>x. x * 0x7ed1b41d"])
    (simp_all only: mult_c2b2ae35, simp_all)

lemma avalanche_steps:
  "avalanche = (\<lambda>x. x XOR drop_bit 16 x) \<circ> (\<lambda>x. x * 0xc2b2ae35) \<circ> (\<lambda>x. x XOR drop_bit 13 x)
     \<circ> (\<lambda>x. x * 0x85ebca6b) \<circ> (\<lambda>x. x XOR drop_bit 16 x)"
  by (rule ext) (simp add: avalanche_def Let_def)

lemma final_Hash6_inj: "(final_Hash6 h n = final_Hash6 h' n) = (h = h')"
proof
  assume "final_Hash6 h n = final_Hash6 h' n"
  then have "avalanche_inverse (avalanche (h XOR n)) = avalanche_inverse (avalanche (h' XOR n))"
    by (simp add: final_Hash6_avalanche)
  then have "h XOR n = h' XOR n" by (simp only: avalanche_inverse_left)
  then have "(h XOR n) XOR n = (h' XOR n) XOR n" by simp
  then show "h = h'" by (simp add: xor.assoc)
qed simp

text \<open>
  Claim C10. The avalanche of the final calculation is a bijection on 32-bit words:
  it is the composition of five steps, each a bijection (the two multipliers are odd
  and have inverses modulo \<open>2 ^ 32\<close>), and \<open>avalanche_inverse\<close> undoes it. So for a
  fixed length two accumulators have the same digest only if they are equal.
\<close>

theorem avalanche_bijective:
  "bij avalanche
   \<and> avalanche_inverse (avalanche h) = h \<and> avalanche (avalanche_inverse h) = h
   \<and> avalanche = (\<lambda>x. x XOR drop_bit 16 x) \<circ> (\<lambda>x. x * 0xc2b2ae35)
        \<circ> (\<lambda>x. x XOR drop_bit 13 x) \<circ> (\<lambda>x. x * 0x85ebca6b) \<circ> (\<lambda>x. x XOR drop_bit 16 x)
   \<and> bij (\<lambda>x :: uint32. x XOR drop_bit 16 x) \<and> bij (\<lambda>x :: uint32. x XOR drop_bit 13 x)
   \<and> bij (\<lambda>x :: uint32. x * 0x85ebca6b) \<and> bij (\<lambda>x :: uint32. x * 0xc2b2ae35)
   \<and> odd (0x85ebca6b :: nat) \<and> odd (0xc2b2ae35 :: nat)
   \<and> (0x85ebca6b :: uint32) * 0xa5cb9243 = 1 \<and> (0xc2b2ae35 :: uint32) * 0x7ed1b41d = 1
   \<and> final_Hash6 h n = avalanche (h XOR n)
   \<and> (final_Hash6 h n = final_Hash6 h' n) = (h = h')"
proof -
  have o: "odd (0x85ebca6b :: nat) \<and> odd (0xc2b2ae35 :: nat)" by simp
  note facts = bij_avalanche avalanche_inverse_left [of h] avalanche_inverse_right [of h]
    avalanche_steps bij_xorshift16 bij_xorshift13 bij_mult_85ebca6b bij_mult_c2b2ae35
    unit_85ebca6b(1) unit_c2b2ae35(1) final_Hash6_avalanche [of h n] final_Hash6_inj [of h n h']
  from o facts show ?thesis by blast
qed

end
